theory Spec2Isabelle
  imports Main "HOL-Library.Sublist"
begin

section \<open>Data model\<close>

text \<open>
  The module under verification is the client-side authorization of networked-entity
  messages (\<^verbatim>\<open>permissions-utils.js\<close>): \<^verbatim>\<open>authorizeOrSanitizeMessage\<close>, the helpers it
  calls and \<^verbatim>\<open>applyPersistentSync\<close>.

  JavaScript objects used as dictionaries are maps \<open>string \<rightharpoonup> 'v\<close> of their own
  properties; a property that is absent is \<open>None\<close>. A read \<^verbatim>\<open>obj[name]\<close> also sees what
  the object inherits from \<^verbatim>\<open>Object.prototype\<close> (\<open>get_property\<close> below); this matters where
  the name comes from a peer: the networkId under which the stash is read and written,
  the owner of a pending record, and the slot names of a payload. Objects mutated in place
  are modelled by returning the updated value. The two module-level variables
  (\<^verbatim>\<open>persistentSyncs\<close>, \<^verbatim>\<open>nonAuthorizedSchemas\<close>) form the state that every operation takes
  and returns.

  The model works on decoded messages of the shape the transport hands over: \<^verbatim>\<open>data\<close> is an
  object; for a single update it has a \<^verbatim>\<open>networkId\<close> and a \<^verbatim>\<open>components\<close> object; for a bulk
  update \<^verbatim>\<open>data.d\<close> is an array whose elements are such objects or \<^verbatim>\<open>null\<close>. A message
  outside this shape has no counterpart in the model; the source raises a TypeError on
  some of them (a \<^verbatim>\<open>"u"\<close> message without \<^verbatim>\<open>data\<close>, at \<^verbatim>\<open>message.data.isFirstSync\<close>). The
  sender's session id \<^verbatim>\<open>from_session_id\<close> is stamped by the server and is a session id,
  never the name of an inherited property, and every presence entry has a first meta;
  the templates of the schema dictionary are the application's own configuration. The
  stash of a state of the model has \<^verbatim>\<open>Object.prototype\<close> as its prototype, as the object
  \<^verbatim>\<open>{}\<close> that the module creates.
\<close>

text \<open>Component values are opaque to this module; the only value it writes is \<^verbatim>\<open>null\<close>.\<close>

datatype json = JNull | JBool bool | JNum int | JStr string

text \<open>
  One per-entity update. \<open>persistent\<close> and \<open>isFirstSync\<close> are optional flags;
  \<open>components\<close> is the sparse mapping from slot index (a property name, hence a string)
  to the new value; \<open>others\<close> holds the remaining top-level properties, which this module
  only copies.
\<close>

record entity_data =
  networkId :: string
  persistent :: "bool option"
  isFirstSync :: "bool option"
  components :: "string \<rightharpoonup> json"
  others :: "string \<rightharpoonup> json"

text \<open>
  An inbound message. \<open>data\<close> is the view of \<^verbatim>\<open>message.data\<close> as one entity update (read
  for the kinds \<^verbatim>\<open>"u"\<close> and \<^verbatim>\<open>"r"\<close>), \<open>data_d\<close> is the array \<^verbatim>\<open>message.data.d\<close> (read for
  \<^verbatim>\<open>"um"\<close>; an absent array is the empty list, which the loop treats alike). An array
  element may be \<^verbatim>\<open>null\<close>, hence the \<open>option\<close>.
\<close>

record message =
  dataType :: string
  data :: entity_data
  data_d :: "entity_data option list"
  clientId :: string
  from_session_id :: string

text \<open>
  What the message gate returns: the shared \<^verbatim>\<open>emptyObject\<close> or a message.
  \<open>InheritedValue\<close> is the one other value that \<^verbatim>\<open>applyPersistentSync\<close> can hand to
  \<^verbatim>\<open>onData\<close>: a member of \<^verbatim>\<open>Object.prototype\<close> that it read from the stash.
\<close>

datatype gate_result = EmptyObject | Msg message | InheritedValue

text \<open>
  A call ends with a result (\<open>Inr\<close>) or in one of two other ways (\<open>Inl\<close>), each returned
  with the state reached at that point.
  \<^item> \<open>TypeError\<close>: the JavaScript exception.
  \<^item> \<open>ProtoSetter\<close>: the call made an assignment \<^verbatim>\<open>obj["__proto__"] = v\<close> to an object with no
    own property of that name. JavaScript then runs the setter of \<^verbatim>\<open>Object.prototype\<close>: no
    property is stored, the prototype of \<^verbatim>\<open>obj\<close> is replaced when \<^verbatim>\<open>v\<close> is an object or
    \<^verbatim>\<open>null\<close>, and no exception is raised. Prototypes other than \<^verbatim>\<open>Object.prototype\<close> are
    not represented here, so the model follows the call no further: \<open>Inl ProtoSetter\<close>
    says that the call went through such an assignment, and nothing about its outcome.
\<close>

datatype error = TypeError | ProtoSetter

type_synonym permission_set = "string \<rightharpoonup> bool"

record presence_meta =
  permissions :: permission_set

text \<open>
  An entry of \<^verbatim>\<open>presence.state\<close>. Phoenix keeps an entry only while it has at least one
  meta, so \<^verbatim>\<open>metas[0]\<close> is a field of the entry.
\<close>

record presence_entry =
  metas_0 :: presence_meta
  metas_rest :: "presence_meta list"

record entity_metadata =
  template :: string
  creator :: string

text \<open>A pending-creation record of the adapter: template, creator and an optional owner.\<close>

record pending_data = entity_metadata +
  owner :: "string option"

text \<open>
  A schema of \<^verbatim>\<open>NAF.schemas.schemaDict\<close>: each component descriptor is a bare component
  name or a component with a property.
\<close>

datatype component_descriptor = Bare string | WithProperty string string

record schema =
  schema_components :: "component_descriptor list"
  nonAuthorizedComponents :: "component_descriptor list option"

text \<open>
  The collaborators the module reads: the presence directory, the adapter's pending
  records, the materialized entities with the two accessors of \<^verbatim>\<open>ownership-utils\<close>
  (taken as parameters), and the schema dictionary.
\<close>

record 'e env =
  presence_state :: "string \<rightharpoonup> presence_entry"
  getPendingDataForNetworkId :: "string \<rightharpoonup> pending_data"
  getEntity :: "string \<rightharpoonup> 'e"
  getNetworkedTemplate :: "'e \<Rightarrow> string"
  getCreator :: "'e \<Rightarrow> string"
  schemaDict :: "string \<rightharpoonup> schema"

record gate_state =
  persistentSyncs :: "string \<rightharpoonup> message"
  nonAuthorizedSchemas :: "(string \<rightharpoonup> string list) option"

section \<open>JavaScript primitives\<close>

text \<open>Truthiness of an optional boolean flag.\<close>

definition truthy :: "bool option \<Rightarrow> bool" where
  "truthy b = (b = Some True)"

text \<open>\<^verbatim>\<open>String.prototype.endsWith\<close>.\<close>

definition endsWith :: "string \<Rightarrow> string \<Rightarrow> bool" where
  "endsWith s searchString =
     (length searchString \<le> length s \<and>
      drop (length s - length searchString) s = searchString)"

text \<open>\<^verbatim>\<open>Array.prototype.findIndex\<close>: the first index whose element satisfies the predicate, or -1.\<close>

fun findIndex :: "('a \<Rightarrow> bool) \<Rightarrow> 'a list \<Rightarrow> int" where
  "findIndex P [] = - 1"
| "findIndex P (x # xs) =
     (if P x then 0 else (let r = findIndex P xs in if r < 0 then - 1 else r + 1))"

text \<open>\<^verbatim>\<open>Number.prototype.toString\<close> on an integer: its decimal digits.\<close>

fun digits :: "nat \<Rightarrow> string" where
  "digits n = (if n < 10 then [''0123456789'' ! n] else digits (n div 10) @ [''0123456789'' ! (n mod 10)])"

definition toString :: "int \<Rightarrow> string" where
  "toString i = (if i < 0 then CHR ''-'' # digits (nat (- i)) else digits (nat i))"

text \<open>
  The properties of \<^verbatim>\<open>Object.prototype\<close>, which every plain object inherits (the standard
  ones and those of the specification's annex for browsers). All of them are functions,
  except \<^verbatim>\<open>__proto__\<close>, which reads as \<^verbatim>\<open>Object.prototype\<close> itself; so each reads as a
  value that JavaScript takes as true and that has none of the properties of a message.
\<close>

definition object_prototype_names :: "string list" where
  "object_prototype_names =
     [''constructor'', ''hasOwnProperty'', ''isPrototypeOf'', ''propertyIsEnumerable'',
      ''toLocaleString'', ''toString'', ''valueOf'', ''__proto__'',
      ''__defineGetter__'', ''__defineSetter__'', ''__lookupGetter__'', ''__lookupSetter__'']"

definition inherited :: "string \<Rightarrow> bool" where
  "inherited name = (name \<in> set object_prototype_names)"

text \<open>
  The read \<^verbatim>\<open>obj[name]\<close> on a plain object: an own property, else what \<^verbatim>\<open>Object.prototype\<close>
  has under that name, else \<^verbatim>\<open>undefined\<close>.
\<close>

datatype 'a js_property = Absent | Own 'a | FromPrototype

definition get_property :: "(string \<rightharpoonup> 'a) \<Rightarrow> string \<Rightarrow> 'a js_property" where
  "get_property obj name =
     (case obj name of
        Some v \<Rightarrow> Own v
      | None \<Rightarrow> if inherited name then FromPrototype else Absent)"

text \<open>
  The assignment \<^verbatim>\<open>obj[name] = v\<close> on a plain object stores an own property, unless the
  name is \<^verbatim>\<open>__proto__\<close> and the object has no own property of that name: then the setter
  runs (\<open>ProtoSetter\<close>).
\<close>

definition set_property :: "(string \<rightharpoonup> 'a) \<Rightarrow> string \<Rightarrow> 'a \<Rightarrow> error + (string \<rightharpoonup> 'a)" where
  "set_property obj name v =
     (if name = ''__proto__'' \<and> obj name = None then Inl ProtoSetter else Inr (obj(name \<mapsto> v)))"

text \<open>
  \<^verbatim>\<open>Object.assign(target, source)\<close> assigns every own property of the source to the target.
  \<open>assigns_proto\<close> says that one of these assignments runs the setter; when none does,
  the result is the target overlaid with the source (\<open>object_assign\<close>).
\<close>

definition assigns_proto :: "(string \<rightharpoonup> 'v) \<Rightarrow> (string \<rightharpoonup> 'v) \<Rightarrow> bool" where
  "assigns_proto target source = (source ''__proto__'' \<noteq> None \<and> target ''__proto__'' = None)"

definition object_assign :: "('k \<rightharpoonup> 'v) \<Rightarrow> ('k \<rightharpoonup> 'v) \<Rightarrow> ('k \<rightharpoonup> 'v)" where
  "object_assign target source = target ++ source"

section \<open>The schema registry and the sanitizer\<close>

text \<open>
  \<^verbatim>\<open>indexForComponent\<close>: the position in the schema's component list of a bare component
  name (compared with \<^verbatim>\<open>===\<close>, so only a bare name matches) or of a component with the same
  name and property; -1 when there is none.
\<close>

fun indexForComponent :: "component_descriptor \<Rightarrow> schema \<Rightarrow> int" where
  "indexForComponent (Bare componentName) sch =
     findIndex (\<lambda>schemaComponent. schemaComponent = Bare componentName) (schema_components sch)"
| "indexForComponent (WithProperty componentName property) sch =
     findIndex (\<lambda>schemaComponent. schemaComponent = WithProperty componentName property) (schema_components sch)"

text \<open>
  \<^verbatim>\<open>initializeNonAuthorizedSchemas\<close>: for every template of the schema dictionary, the
  indices of its \<^verbatim>\<open>nonAuthorizedComponents\<close> (none when the schema has no such list), as
  strings.
\<close>

definition initializeNonAuthorizedSchemas :: "(string \<rightharpoonup> schema) \<Rightarrow> (string \<rightharpoonup> string list)" where
  "initializeNonAuthorizedSchemas sd =
     (\<lambda>t. case sd t of
        None \<Rightarrow> None
      | Some sch \<Rightarrow>
          Some (map toString
                 (map (\<lambda>nonAuthorizedComponent. indexForComponent nonAuthorizedComponent sch)
                    (case nonAuthorizedComponents sch of None \<Rightarrow> [] | Some cs \<Rightarrow> cs))))"

text \<open>
  The registry that \<^verbatim>\<open>sanitizeMessageData\<close> works with: the cached one, or the one built
  from the schema dictionary on first use.
\<close>

definition registry :: "(string \<rightharpoonup> schema) \<Rightarrow> gate_state \<Rightarrow> (string \<rightharpoonup> string list)" where
  "registry sd st =
     (case nonAuthorizedSchemas st of
        None \<Rightarrow> initializeNonAuthorizedSchemas sd
      | Some r \<Rightarrow> r)"

text \<open>
  The loop of \<^verbatim>\<open>sanitizeMessageData\<close> visits every own property of \<^verbatim>\<open>data.components\<close> and
  touches only that property, so its effect is given per key. Two things make its first
  iteration raise a TypeError; with no property to visit the loop body never runs.
  \<^item> With no registry entry for the template, \<^verbatim>\<open>nonAuthorizedIndices\<close> is not an array (it
    is \<^verbatim>\<open>undefined\<close>, or a member of \<^verbatim>\<open>Object.prototype\<close> when the template has an inherited
    name), and \<^verbatim>\<open>nonAuthorizedIndices.includes\<close> is not a function.
  \<^item> The test \<^verbatim>\<open>data.components.hasOwnProperty(index)\<close> looks \<^verbatim>\<open>hasOwnProperty\<close> up on the
    payload: when the payload has an own slot of that name, its value (decoded data, never
    a function) is called.
\<close>

definition null_unsafe_slots :: "string list \<Rightarrow> (string \<rightharpoonup> json) \<Rightarrow> (string \<rightharpoonup> json)" where
  "null_unsafe_slots nonAuthorizedIndices comps =
     (\<lambda>index. case comps index of
        None \<Rightarrow> None
      | Some v \<Rightarrow> if index \<in> set nonAuthorizedIndices then Some v else Some JNull)"

definition sanitizeMessageData ::
  "(string \<rightharpoonup> schema) \<Rightarrow> gate_state \<Rightarrow> string \<Rightarrow> entity_data \<Rightarrow> gate_state \<times> (error + entity_data)" where
  "sanitizeMessageData sd st tmpl d =
     (let st' = st\<lparr>nonAuthorizedSchemas := Some (registry sd st)\<rparr> in
      case registry sd st tmpl of
        None \<Rightarrow> if components d = Map.empty then (st', Inr d) else (st', Inl TypeError)
      | Some nonAuthorizedIndices \<Rightarrow>
          if components d ''hasOwnProperty'' \<noteq> None then (st', Inl TypeError)
          else (st', Inr (d\<lparr>components := null_unsafe_slots nonAuthorizedIndices (components d)\<rparr>)))"

section \<open>Permission policy and metadata resolver\<close>

definition can :: "permission_set \<Rightarrow> string \<Rightarrow> bool" where
  "can senderPermissions capability = (senderPermissions capability = Some True)"

definition authorizeEntityManipulation :: "entity_metadata \<Rightarrow> string \<Rightarrow> permission_set \<Rightarrow> bool" where
  "authorizeEntityManipulation entityMetadata sender senderPermissions =
     (let isCreator = (sender = creator entityMetadata) in
      if endsWith (template entityMetadata) ''-avatar'' then isCreator
      else if endsWith (template entityMetadata) ''-media'' then
        isCreator \<or> can senderPermissions ''spawn_and_move_media''
      else if endsWith (template entityMetadata) ''-camera'' then
        isCreator \<or> can senderPermissions ''spawn_camera''
      else if endsWith (template entityMetadata) ''-pen'' \<or> endsWith (template entityMetadata) ''-drawing'' then
        isCreator \<or> can senderPermissions ''spawn_drawing''
      else False)"

text \<open>
  The guard \<^verbatim>\<open>if (pendingData.owner) { if (!presenceState) return; }\<close>: the record declares
  an owner (a non-empty string, which is what JavaScript takes as true) and the read
  \<^verbatim>\<open>presence.state[pendingData.owner]\<close> yields nothing. The presence state is a plain
  object, so the read yields a value for the session ids that have an entry and also
  for the inherited names.
\<close>

definition owner_not_present :: "'e env \<Rightarrow> pending_data \<Rightarrow> bool" where
  "owner_not_present env pendingData =
     (case owner pendingData of
        None \<Rightarrow> False
      | Some ownerId \<Rightarrow> ownerId \<noteq> [] \<and> get_property (presence_state env) ownerId = Absent)"

text \<open>
  The resolver returns \<^verbatim>\<open>undefined\<close> or \<^verbatim>\<open>null\<close> for absence (both are \<open>None\<close>: its callers
  only test \<^verbatim>\<open>!entityMetadata\<close>), and the pair of template and creator otherwise.
\<close>

definition getPendingOrExistingEntityMetadata :: "'e env \<Rightarrow> string \<Rightarrow> entity_metadata option" where
  "getPendingOrExistingEntityMetadata env nid =
     (case getPendingDataForNetworkId env nid of
        Some pendingData \<Rightarrow>
          if owner_not_present env pendingData then None
          else Some \<lparr>template = template pendingData, creator = creator pendingData\<rparr>
      | None \<Rightarrow>
          (case getEntity env nid of
             None \<Rightarrow> None
           | Some entity \<Rightarrow>
               Some \<lparr>template = getNetworkedTemplate env entity, creator = getCreator env entity\<rparr>))"

definition authorizeOrSanitizeMessageData ::
  "'e env \<Rightarrow> gate_state \<Rightarrow> entity_data \<Rightarrow> string \<Rightarrow> permission_set \<Rightarrow>
   gate_state \<times> (error + bool \<times> entity_data)" where
  "authorizeOrSanitizeMessageData env st d sender senderPermissions =
     (case getPendingOrExistingEntityMetadata env (networkId d) of
        None \<Rightarrow> (st, Inr (False, d))
      | Some entityMetadata \<Rightarrow>
          if authorizeEntityManipulation entityMetadata sender senderPermissions then (st, Inr (True, d))
          else (case sanitizeMessageData (schemaDict env) st (template entityMetadata) d of
                  (st', Inl e) \<Rightarrow> (st', Inl e)
                | (st', Inr d') \<Rightarrow> (st', Inr (True, d'))))"

section \<open>The persistent-sync stash\<close>

text \<open>
  \<^verbatim>\<open>Object.assign(currentData, entityData)\<close> followed by the re-assignment of
  \<^verbatim>\<open>currentData.components\<close>: every property present in \<open>entityData\<close> overwrites the
  current one, and the components are the current ones overlaid with the new ones. This
  is the result when neither of the two \<^verbatim>\<open>Object.assign\<close> runs the \<^verbatim>\<open>__proto__\<close> setter.
\<close>

definition merge_entity_data :: "entity_data \<Rightarrow> entity_data \<Rightarrow> entity_data" where
  "merge_entity_data currentData entityData =
     \<lparr>networkId = networkId entityData,
      persistent = (case persistent entityData of None \<Rightarrow> persistent currentData | Some b \<Rightarrow> Some b),
      isFirstSync = (case isFirstSync entityData of None \<Rightarrow> isFirstSync currentData | Some b \<Rightarrow> Some b),
      components = object_assign (components currentData) (components entityData),
      others = object_assign (others currentData) (others entityData)\<rparr>"

text \<open>
  \<^verbatim>\<open>stashPersistentSync\<close> reads \<^verbatim>\<open>persistentSyncs[entityData.networkId]\<close>, a plain object
  created as \<^verbatim>\<open>{}\<close>.
  \<^item> Nothing there: the new entry is stored (the name is not an inherited one, so not
    \<^verbatim>\<open>__proto__\<close>, and the assignment stores an own property).
  \<^item> An own entry: the update is merged into its data.
  \<^item> A member of \<^verbatim>\<open>Object.prototype\<close> (the networkId is an inherited name with no own
    entry): the merge branch is taken, \<^verbatim>\<open>currentData\<close> is \<^verbatim>\<open>undefined\<close> and
    \<^verbatim>\<open>currentData.components\<close> raises a TypeError before anything is changed.
\<close>

definition stashPersistentSync :: "gate_state \<Rightarrow> message \<Rightarrow> entity_data \<Rightarrow> error + gate_state" where
  "stashPersistentSync st msg entityData =
     (case get_property (persistentSyncs st) (networkId entityData) of
        Absent \<Rightarrow>
          Inr (st\<lparr>persistentSyncs := (persistentSyncs st)(networkId entityData \<mapsto>
               \<lparr>dataType = ''u'', data = entityData, data_d = [],
                clientId = clientId msg, from_session_id = from_session_id msg\<rparr>)\<rparr>)
      | Own current \<Rightarrow>
          if assigns_proto (others (data current)) (others entityData) \<or>
             assigns_proto (components (data current)) (components entityData)
          then Inl ProtoSetter
          else Inr (st\<lparr>persistentSyncs := (persistentSyncs st)(networkId entityData \<mapsto>
                 current\<lparr>data := merge_entity_data (data current) entityData\<rparr>)\<rparr>)
      | FromPrototype \<Rightarrow> Inl TypeError)"

section \<open>The message gate\<close>

text \<open>
  The loop over \<^verbatim>\<open>message.data.d\<close> of the \<^verbatim>\<open>"um"\<close> branch. It returns the array with the
  stashed and the unresolvable entries set to \<^verbatim>\<open>null\<close> (\<open>None\<close>), and the two flags
  \<^verbatim>\<open>sanitizedAny\<close> and \<^verbatim>\<open>stashedAny\<close>. Reading \<^verbatim>\<open>entityData.persistent\<close> of a \<^verbatim>\<open>null\<close> element
  raises a TypeError.
\<close>

fun um_loop ::
  "'e env \<Rightarrow> message \<Rightarrow> permission_set \<Rightarrow> gate_state \<Rightarrow> entity_data option list \<Rightarrow>
   gate_state \<times> (error + entity_data option list \<times> bool \<times> bool)" where
  "um_loop env msg senderPermissions st [] = (st, Inr ([], False, False))"
| "um_loop env msg senderPermissions st (None # rest) = (st, Inl TypeError)"
| "um_loop env msg senderPermissions st (Some entityData # rest) =
     (if truthy (persistent entityData) \<and> getEntity env (networkId entityData) = None then
        (case stashPersistentSync st msg entityData of
           Inl e \<Rightarrow> (st, Inl e)
         | Inr st1 \<Rightarrow>
             (case um_loop env msg senderPermissions st1 rest of
                (st', Inl e) \<Rightarrow> (st', Inl e)
              | (st', Inr (slots, sanitizedAny, stashedAny)) \<Rightarrow>
                  (st', Inr (None # slots, sanitizedAny, True))))
      else
        (case authorizeOrSanitizeMessageData env st entityData (from_session_id msg) senderPermissions of
           (st1, Inl e) \<Rightarrow> (st1, Inl e)
         | (st1, Inr (authorizedOrSanitized, entityData')) \<Rightarrow>
             (case um_loop env msg senderPermissions st1 rest of
                (st', Inl e) \<Rightarrow> (st', Inl e)
              | (st', Inr (slots, sanitizedAny, stashedAny)) \<Rightarrow>
                  if authorizedOrSanitized then (st', Inr (Some entityData' # slots, sanitizedAny, stashedAny))
                  else (st', Inr (None # slots, True, stashedAny)))))"

text \<open>
  \<^verbatim>\<open>authorizeOrSanitizeMessage\<close>, branch by branch as in the source. The single-update
  branch files a persistent update for an entity that is not materialized with the
  assignment \<^verbatim>\<open>persistentSyncs[message.data.networkId] = message\<close> (\<open>set_property\<close>): it
  replaces what was filed under that networkId. For the networkId \<^verbatim>\<open>__proto__\<close> the assignment
  stores no entry and makes the message the prototype of the stash; the source then
  returns the empty message, with a stash that is no state of this model
  (\<open>Inl ProtoSetter\<close>, the entries as they were).
\<close>

definition authorizeOrSanitizeMessage :: "'e env \<Rightarrow> gate_state \<Rightarrow> message \<Rightarrow> gate_state \<times> (error + gate_result)" where
  "authorizeOrSanitizeMessage env st msg =
     (if dataType msg = ''u'' \<and> truthy (isFirstSync (data msg)) \<and> \<not> truthy (persistent (data msg))
      then (st, Inr (Msg msg))
      else
        (case presence_state env (from_session_id msg) of
           None \<Rightarrow> (st, Inr EmptyObject)
         | Some presenceState \<Rightarrow>
             (let senderPermissions = permissions (metas_0 presenceState) in
              if dataType msg = ''um'' then
                (case um_loop env msg senderPermissions st (data_d msg) of
                   (st', Inl e) \<Rightarrow> (st', Inl e)
                 | (st', Inr (slots, sanitizedAny, stashedAny)) \<Rightarrow>
                     (st', Inr (Msg (msg\<lparr>data_d :=
                        (if sanitizedAny \<or> stashedAny then filter (\<lambda>x. x \<noteq> None) slots else slots)\<rparr>))))
              else if dataType msg = ''u'' then
                (if truthy (persistent (data msg)) \<and> getEntity env (networkId (data msg)) = None then
                   (case set_property (persistentSyncs st) (networkId (data msg)) msg of
                      Inl e \<Rightarrow> (st, Inl e)
                    | Inr stash \<Rightarrow> (st\<lparr>persistentSyncs := stash\<rparr>, Inr EmptyObject))
                 else
                   (case authorizeOrSanitizeMessageData env st (data msg) (from_session_id msg) senderPermissions of
                      (st', Inl e) \<Rightarrow> (st', Inl e)
                    | (st', Inr (authorizedOrSanitized, d')) \<Rightarrow>
                        if authorizedOrSanitized then (st', Inr (Msg (msg\<lparr>data := d'\<rparr>)))
                        else (st', Inr EmptyObject)))
              else if dataType msg = ''r'' then
                (case getPendingOrExistingEntityMetadata env (networkId (data msg)) of
                   None \<Rightarrow> (st, Inr EmptyObject)
                 | Some entityMetadata \<Rightarrow>
                     if authorizeEntityManipulation entityMetadata (from_session_id msg) senderPermissions
                     then (st, Inr (Msg msg))
                     else (st, Inr EmptyObject))
              else (st, Inr (Msg msg)))))"

definition PHOENIX_RELIABLE_NAF :: string where
  "PHOENIX_RELIABLE_NAF = ''phx-reliable''"

text \<open>
  \<^verbatim>\<open>applyPersistentSync\<close> returns the state and the list of calls it made to the adapter's
  \<^verbatim>\<open>onData\<close> (message and channel tag). When the message gate raises, the call to
  \<^verbatim>\<open>onData\<close> and the \<^verbatim>\<open>delete\<close> after it are not reached.

  The guard \<^verbatim>\<open>if (!persistentSyncs[networkId]) return\<close> is passed by an own entry and also by
  an inherited name. In the second case the message gate is run on a member of
  \<^verbatim>\<open>Object.prototype\<close>: its \<^verbatim>\<open>dataType\<close> and \<^verbatim>\<open>from_session_id\<close> are \<^verbatim>\<open>undefined\<close>, the presence
  state is read under the name \<^verbatim>\<open>undefined\<close>, and the result is the empty message when
  there is nothing under that name and the value itself otherwise; \<^verbatim>\<open>onData\<close> is called
  with it, and the \<^verbatim>\<open>delete\<close> finds no own property to remove.
\<close>

definition applyPersistentSync ::
  "'e env \<Rightarrow> gate_state \<Rightarrow> string \<Rightarrow> gate_state \<times> (error + (gate_result \<times> string) list)" where
  "applyPersistentSync env st nid =
     (case get_property (persistentSyncs st) nid of
        Absent \<Rightarrow> (st, Inr [])
      | Own stashed \<Rightarrow>
          (case authorizeOrSanitizeMessage env st stashed of
             (st', Inl e) \<Rightarrow> (st', Inl e)
           | (st', Inr r) \<Rightarrow>
               (st'\<lparr>persistentSyncs := (persistentSyncs st')(nid := None)\<rparr>,
                Inr [(r, PHOENIX_RELIABLE_NAF)]))
      | FromPrototype \<Rightarrow>
          (st, Inr [(if presence_state env ''undefined'' = None then EmptyObject else InheritedValue,
                     PHOENIX_RELIABLE_NAF)]))"

section \<open>Predicates used in the statements\<close>

text \<open>
  The first test of the message gate: a \<^verbatim>\<open>"u"\<close> message with \<^verbatim>\<open>isFirstSync\<close> set and
  \<^verbatim>\<open>persistent\<close> not set, which is returned before the sender's presence is looked at.
\<close>

definition first_sync_creation :: "message \<Rightarrow> bool" where
  "first_sync_creation msg =
     (dataType msg = ''u'' \<and> truthy (isFirstSync (data msg)) \<and> \<not> truthy (persistent (data msg)))"


text \<open>
  The stash as the module builds it: every entry is a \<^verbatim>\<open>"u"\<close> message filed under the
  networkId of its own data. Both writers of \<^verbatim>\<open>persistentSyncs\<close> keep it so
  (\<open>stash_wf_gate\<close>, \<open>stash_wf_applyPersistentSync\<close> below), starting from the empty stash.
\<close>

definition stash_wf :: "gate_state \<Rightarrow> bool" where
  "stash_wf st =
     (\<forall>nid stashed. persistentSyncs st nid = Some stashed \<longrightarrow>
        dataType stashed = ''u'' \<and> networkId (data stashed) = nid)"





section \<open>Example inputs\<close>

text \<open>
  Concrete inputs at which the theorems below are instantiated. An entity is represented
  by the pair of its template and its creator.
\<close>

definition ex_schemaDict :: "string \<rightharpoonup> schema" where
  "ex_schemaDict =
     [''#interactable-media'' \<mapsto>
        \<lparr>schema_components =
           [Bare ''position'', Bare ''rotation'', WithProperty ''media-loader'' ''src'', Bare ''pinnable''],
         nonAuthorizedComponents = Some [Bare ''pinnable'']\<rparr>,
      ''#remote-avatar'' \<mapsto>
        \<lparr>schema_components = [Bare ''position'', Bare ''rotation''],
         nonAuthorizedComponents = None\<rparr>]"

definition ex_presence :: "string \<rightharpoonup> presence_entry" where
  "ex_presence =
     [''s1'' \<mapsto> \<lparr>metas_0 = \<lparr>permissions = Map.empty\<rparr>, metas_rest = []\<rparr>,
      ''s2'' \<mapsto> \<lparr>metas_0 = \<lparr>permissions = [''spawn_and_move_media'' \<mapsto> True]\<rparr>, metas_rest = []\<rparr>]"

definition ex_env :: "(string \<times> string) env" where
  "ex_env =
     \<lparr>presence_state = ex_presence,
      getPendingDataForNetworkId =
        [''p1'' \<mapsto> \<lparr>template = ''#interactable-media'', creator = ''s1'', owner = Some ''s1''\<rparr>,
         ''p2'' \<mapsto> \<lparr>template = ''#interactable-media'', creator = ''s1'', owner = Some ''gone''\<rparr>],
      getEntity = [''n1'' \<mapsto> (''#interactable-media'', ''s9'')],
      getNetworkedTemplate = fst,
      getCreator = snd,
      schemaDict = ex_schemaDict\<rparr>"

definition ex_state0 :: gate_state where
  "ex_state0 = \<lparr>persistentSyncs = Map.empty, nonAuthorizedSchemas = None\<rparr>"

definition ex_payload :: entity_data where
  "ex_payload =
     \<lparr>networkId = ''n1'', persistent = None, isFirstSync = None,
      components = [''0'' \<mapsto> JNum 1, ''3'' \<mapsto> JBool True, ''7'' \<mapsto> JStr ''x''],
      others = Map.empty\<rparr>"

definition ex_stashable :: entity_data where
  "ex_stashable =
     \<lparr>networkId = ''n5'', persistent = Some True, isFirstSync = None,
      components = [''0'' \<mapsto> JNum 5], others = Map.empty\<rparr>"

definition ex_unknown :: entity_data where
  "ex_unknown =
     \<lparr>networkId = ''n7'', persistent = None, isFirstSync = None,
      components = [''0'' \<mapsto> JNum 7], others = Map.empty\<rparr>"

definition ex_own :: entity_data where
  "ex_own =
     \<lparr>networkId = ''p1'', persistent = None, isFirstSync = None,
      components = [''1'' \<mapsto> JNum 2], others = Map.empty\<rparr>"

definition ex_no_data :: entity_data where
  "ex_no_data =
     \<lparr>networkId = [], persistent = None, isFirstSync = None,
      components = Map.empty, others = Map.empty\<rparr>"




definition ex_first_sync :: message where
  "ex_first_sync =
     \<lparr>dataType = ''u'',
      data = \<lparr>networkId = ''n9'', persistent = None, isFirstSync = Some True,
              components = [''0'' \<mapsto> JNum 1], others = Map.empty\<rparr>,
      data_d = [], clientId = ''c3'', from_session_id = ''s3''\<rparr>"

definition ex_remove_absent :: message where
  "ex_remove_absent =
     \<lparr>dataType = ''r'', data = ex_payload, data_d = [], clientId = ''c3'', from_session_id = ''s3''\<rparr>"

definition ex_persistent_u :: message where
  "ex_persistent_u =
     \<lparr>dataType = ''u'', data = ex_stashable, data_d = [], clientId = ''c1'', from_session_id = ''s1''\<rparr>"

definition ex_env_materialized :: "(string \<times> string) env" where
  "ex_env_materialized = ex_env\<lparr>getEntity := [''n5'' \<mapsto> (''#interactable-media'', ''s1'')]\<rparr>"


definition ex_state_stashed :: gate_state where
  "ex_state_stashed = \<lparr>persistentSyncs = [''n5'' \<mapsto> ex_persistent_u], nonAuthorizedSchemas = None\<rparr>"

definition ex_persistent_n6 :: message where
  "ex_persistent_n6 = ex_persistent_u\<lparr>data := ex_stashable\<lparr>networkId := ''n6''\<rparr>\<rparr>"

definition ex_state_two :: gate_state where
  "ex_state_two =
     \<lparr>persistentSyncs = [''n5'' \<mapsto> ex_persistent_u, ''n6'' \<mapsto> ex_persistent_n6],
      nonAuthorizedSchemas = None\<rparr>"

definition ex_later :: entity_data where
  "ex_later =
     \<lparr>networkId = ''n5'', persistent = Some True, isFirstSync = None,
      components = [''1'' \<mapsto> JNum 6], others = Map.empty\<rparr>"

definition ex_um_a :: message where
  "ex_um_a = \<lparr>dataType = ''um'', data = ex_no_data, data_d = [Some ex_stashable],
     clientId = ''c1'', from_session_id = ''s1''\<rparr>"

definition ex_um_b :: message where
  "ex_um_b = \<lparr>dataType = ''um'', data = ex_no_data, data_d = [Some ex_later],
     clientId = ''c1'', from_session_id = ''s1''\<rparr>"

definition ex_u_b :: message where
  "ex_u_b = \<lparr>dataType = ''u'', data = ex_later, data_d = [],
     clientId = ''c1'', from_session_id = ''s1''\<rparr>"





definition ex_stash_constructor :: entity_data where
  "ex_stash_constructor =
     \<lparr>networkId = ''constructor'', persistent = Some True, isFirstSync = None,
      components = [''0'' \<mapsto> JNum 1], others = Map.empty\<rparr>"


definition ex_persistent_constructor :: message where
  "ex_persistent_constructor =
     \<lparr>dataType = ''u'', data = ex_stash_constructor, data_d = [],
      clientId = ''c1'', from_session_id = ''s1''\<rparr>"

definition ex_env_constructor_materialized :: "(string \<times> string) env" where
  "ex_env_constructor_materialized =
     ex_env\<lparr>getEntity := [''constructor'' \<mapsto> (''#interactable-media'', ''s1'')]\<rparr>"



definition ex_env_inherited_owner :: "(string \<times> string) env" where
  "ex_env_inherited_owner =
     ex_env\<lparr>getPendingDataForNetworkId :=
       [''p3'' \<mapsto> \<lparr>template = ''#interactable-media'', creator = ''s1'', owner = Some ''constructor''\<rparr>]\<rparr>"

section \<open>Property reads\<close>

lemma get_property_Absent_iff: "get_property obj name = Absent \<longleftrightarrow> obj name = None \<and> \<not> inherited name"
  by (simp add: get_property_def split: option.splits)

lemma get_property_Own_iff: "get_property obj name = Own v \<longleftrightarrow> obj name = Some v"
  by (simp add: get_property_def split: option.splits)

lemma get_property_FromPrototype_iff:
  "get_property obj name = FromPrototype \<longleftrightarrow> obj name = None \<and> inherited name"
  by (simp add: get_property_def split: option.splits)


section \<open>Permission policy\<close>

lemma endsWith_suffix: "endsWith s t = suffix t s"
proof
  assume "endsWith s t"
  then have "s = take (length s - length t) s @ t"
    unfolding endsWith_def by (metis append_take_drop_id)
  then show "suffix t s" by (rule suffixI)
next
  assume "suffix t s"
  then obtain p where "s = p @ t" by (auto simp: suffix_def)
  then show "endsWith s t" by (simp add: endsWith_def)
qed

lemma endsWith_same_cases: "endsWith s a \<Longrightarrow> endsWith s b \<Longrightarrow> endsWith a b \<or> endsWith b a"
  unfolding endsWith_suffix by (rule suffix_same_cases)

text \<open>No template kind ends in two of the suffixes of the rule table.\<close>

lemma suffix_kinds_distinct:
  "\<not> (endsWith t ''-avatar'' \<and> endsWith t ''-media'')"
  "\<not> (endsWith t ''-avatar'' \<and> endsWith t ''-camera'')"
  "\<not> (endsWith t ''-avatar'' \<and> endsWith t ''-pen'')"
  "\<not> (endsWith t ''-avatar'' \<and> endsWith t ''-drawing'')"
  "\<not> (endsWith t ''-media'' \<and> endsWith t ''-camera'')"
  "\<not> (endsWith t ''-media'' \<and> endsWith t ''-pen'')"
  "\<not> (endsWith t ''-media'' \<and> endsWith t ''-drawing'')"
  "\<not> (endsWith t ''-camera'' \<and> endsWith t ''-pen'')"
  "\<not> (endsWith t ''-camera'' \<and> endsWith t ''-drawing'')"
proof -
  have lits:
    "\<not> endsWith ''-avatar'' ''-media''" "\<not> endsWith ''-media'' ''-avatar''"
    "\<not> endsWith ''-avatar'' ''-camera''" "\<not> endsWith ''-camera'' ''-avatar''"
    "\<not> endsWith ''-avatar'' ''-pen''" "\<not> endsWith ''-pen'' ''-avatar''"
    "\<not> endsWith ''-avatar'' ''-drawing''" "\<not> endsWith ''-drawing'' ''-avatar''"
    "\<not> endsWith ''-media'' ''-camera''" "\<not> endsWith ''-camera'' ''-media''"
    "\<not> endsWith ''-media'' ''-pen''" "\<not> endsWith ''-pen'' ''-media''"
    "\<not> endsWith ''-media'' ''-drawing''" "\<not> endsWith ''-drawing'' ''-media''"
    "\<not> endsWith ''-camera'' ''-pen''" "\<not> endsWith ''-pen'' ''-camera''"
    "\<not> endsWith ''-camera'' ''-drawing''" "\<not> endsWith ''-drawing'' ''-camera''"
    by (simp_all add: endsWith_def)
  show "\<not> (endsWith t ''-avatar'' \<and> endsWith t ''-media'')"
    "\<not> (endsWith t ''-avatar'' \<and> endsWith t ''-camera'')"
    "\<not> (endsWith t ''-avatar'' \<and> endsWith t ''-pen'')"
    "\<not> (endsWith t ''-avatar'' \<and> endsWith t ''-drawing'')"
    "\<not> (endsWith t ''-media'' \<and> endsWith t ''-camera'')"
    "\<not> (endsWith t ''-media'' \<and> endsWith t ''-pen'')"
    "\<not> (endsWith t ''-media'' \<and> endsWith t ''-drawing'')"
    "\<not> (endsWith t ''-camera'' \<and> endsWith t ''-pen'')"
    "\<not> (endsWith t ''-camera'' \<and> endsWith t ''-drawing'')"
    using lits by (blast dest: endsWith_same_cases)+
qed

text \<open>
  Claim C2. \<^verbatim>\<open>authorizeEntityManipulation\<close> returns true exactly when the template ends in
  \<^verbatim>\<open>-avatar\<close> and the sender is the creator; or it ends in \<^verbatim>\<open>-media\<close> and the sender is the
  creator or has \<^verbatim>\<open>spawn_and_move_media\<close>; or it ends in \<^verbatim>\<open>-camera\<close> and the sender is the
  creator or has \<^verbatim>\<open>spawn_camera\<close>; or it ends in \<^verbatim>\<open>-pen\<close> or \<^verbatim>\<open>-drawing\<close> and the sender is
  the creator or has \<^verbatim>\<open>spawn_drawing\<close>. For a template with none of these suffixes every
  disjunct is false, so the result is false whatever the creator and the permissions.
\<close>

theorem authorizeEntityManipulation_rule_table:
  "authorizeEntityManipulation md sender perms \<longleftrightarrow>
     (endsWith (template md) ''-avatar'' \<and> sender = creator md) \<or>
     (endsWith (template md) ''-media'' \<and> (sender = creator md \<or> can perms ''spawn_and_move_media'')) \<or>
     (endsWith (template md) ''-camera'' \<and> (sender = creator md \<or> can perms ''spawn_camera'')) \<or>
     ((endsWith (template md) ''-pen'' \<or> endsWith (template md) ''-drawing'') \<and>
        (sender = creator md \<or> can perms ''spawn_drawing''))"
  using suffix_kinds_distinct [of "template md"]
  unfolding authorizeEntityManipulation_def Let_def
  by (cases "endsWith (template md) ''-avatar''"; cases "endsWith (template md) ''-media''";
      cases "endsWith (template md) ''-camera''"; simp)

section \<open>Field sanitizer\<close>

lemma registry_cached [simp]: "registry sd (st\<lparr>nonAuthorizedSchemas := Some r\<rparr>) = r"
  by (simp add: registry_def)

lemma null_unsafe_slots_idem:
  "null_unsafe_slots safe (null_unsafe_slots safe comps) = null_unsafe_slots safe comps"
  by (rule ext) (simp add: null_unsafe_slots_def split: option.splits)

lemma ex_registry_media: "registry ex_schemaDict ex_state0 ''#interactable-media'' = Some [''3'']"
  by (simp add: registry_def ex_state0_def initializeNonAuthorizedSchemas_def ex_schemaDict_def toString_def)






text \<open>
  Claim C9. Sanitizing is idempotent: when \<^verbatim>\<open>sanitizeMessageData\<close> has returned a payload
  for a template kind, sanitizing that payload again for the same template kind returns
  it unchanged (nulled slots stay \<^verbatim>\<open>null\<close>, safe slots keep their values) and leaves the
  state as it is.
\<close>

theorem sanitizeMessageData_idempotent:
  assumes "sanitizeMessageData sd st tmpl d = (st1, Inr d1)"
  shows "sanitizeMessageData sd st1 tmpl d1 = (st1, Inr d1)"
proof (cases "registry sd st tmpl")
  case None
  with assms have "components d = Map.empty" and "d1 = d"
    and "st1 = st\<lparr>nonAuthorizedSchemas := Some (registry sd st)\<rparr>"
    by (auto simp add: sanitizeMessageData_def Let_def split: if_splits)
  with None show ?thesis
    by (simp add: sanitizeMessageData_def Let_def)
next
  case (Some safe)
  with assms have "d1 = d\<lparr>components := null_unsafe_slots safe (components d)\<rparr>"
    and "st1 = st\<lparr>nonAuthorizedSchemas := Some (registry sd st)\<rparr>"
    and "components d ''hasOwnProperty'' = None"
    by (auto simp add: sanitizeMessageData_def Let_def split: if_splits)
  with Some show ?thesis
    by (simp add: sanitizeMessageData_def Let_def null_unsafe_slots_idem)
      (simp add: null_unsafe_slots_def)
qed

lemma ex_sanitize_media:
  "sanitizeMessageData ex_schemaDict ex_state0 ''#interactable-media'' ex_payload =
     (ex_state0\<lparr>nonAuthorizedSchemas := Some (registry ex_schemaDict ex_state0)\<rparr>,
      Inr (ex_payload\<lparr>components := [''0'' \<mapsto> JNull, ''3'' \<mapsto> JBool True, ''7'' \<mapsto> JNull]\<rparr>))"
  by (simp add: sanitizeMessageData_def ex_registry_media Let_def null_unsafe_slots_def
        ex_payload_def fun_eq_iff)

theorem sanitizeMessageData_idempotent_witness:
  "sanitizeMessageData ex_schemaDict ex_state0 ''#interactable-media'' ex_payload =
     (ex_state0\<lparr>nonAuthorizedSchemas := Some (registry ex_schemaDict ex_state0)\<rparr>,
      Inr (ex_payload\<lparr>components := [''0'' \<mapsto> JNull, ''3'' \<mapsto> JBool True, ''7'' \<mapsto> JNull]\<rparr>)) \<and>
   sanitizeMessageData ex_schemaDict
       (ex_state0\<lparr>nonAuthorizedSchemas := Some (registry ex_schemaDict ex_state0)\<rparr>)
       ''#interactable-media''
       (ex_payload\<lparr>components := [''0'' \<mapsto> JNull, ''3'' \<mapsto> JBool True, ''7'' \<mapsto> JNull]\<rparr>) =
     (ex_state0\<lparr>nonAuthorizedSchemas := Some (registry ex_schemaDict ex_state0)\<rparr>,
      Inr (ex_payload\<lparr>components := [''0'' \<mapsto> JNull, ''3'' \<mapsto> JBool True, ''7'' \<mapsto> JNull]\<rparr>))"
  using sanitizeMessageData_idempotent [OF ex_sanitize_media] ex_sanitize_media by simp

section \<open>Entity metadata resolver\<close>

text \<open>
  What the resolver returns, case by case. Every operation of the source function is a
  lookup or a field read that is defined on all inputs, so the function has a result for
  every networkId and no branch that raises.
\<close>

lemma getPendingOrExistingEntityMetadata_cases:
  "(\<forall>pendingData. getPendingDataForNetworkId env nid = Some pendingData \<and> owner_not_present env pendingData \<longrightarrow>
       getPendingOrExistingEntityMetadata env nid = None)
   \<and> (getPendingDataForNetworkId env nid = None \<and> getEntity env nid = None \<longrightarrow>
       getPendingOrExistingEntityMetadata env nid = None)
   \<and> (\<forall>pendingData. getPendingDataForNetworkId env nid = Some pendingData \<and> \<not> owner_not_present env pendingData \<longrightarrow>
       getPendingOrExistingEntityMetadata env nid =
         Some \<lparr>template = template pendingData, creator = creator pendingData\<rparr>)
   \<and> (\<forall>entity. getPendingDataForNetworkId env nid = None \<and> getEntity env nid = Some entity \<longrightarrow>
       getPendingOrExistingEntityMetadata env nid =
         Some \<lparr>template = getNetworkedTemplate env entity, creator = getCreator env entity\<rparr>)"
  by (simp add: getPendingOrExistingEntityMetadata_def)

text \<open>
  The owner of a pending record counts as present when the presence state has an entry
  for it, and also when its name is that of a property of \<^verbatim>\<open>Object.prototype\<close>.
\<close>

lemma owner_not_present_iff:
  "owner_not_present env pendingData \<longleftrightarrow>
     (\<exists>ownerId. owner pendingData = Some ownerId \<and> ownerId \<noteq> [] \<and>
        presence_state env ownerId = None \<and> \<not> inherited ownerId)"
  by (auto simp add: owner_not_present_def get_property_def split: option.splits)

lemma ex_env_simps [simp]:
  "presence_state ex_env = ex_presence"
  "getEntity ex_env = [''n1'' \<mapsto> (''#interactable-media'', ''s9'')]"
  "getNetworkedTemplate ex_env = fst"
  "getCreator ex_env = snd"
  "schemaDict ex_env = ex_schemaDict"
  "getPendingDataForNetworkId ex_env =
     [''p1'' \<mapsto> \<lparr>template = ''#interactable-media'', creator = ''s1'', owner = Some ''s1''\<rparr>,
      ''p2'' \<mapsto> \<lparr>template = ''#interactable-media'', creator = ''s1'', owner = Some ''gone''\<rparr>]"
  by (simp_all add: ex_env_def)

lemma inherited_simps [simp]:
  "inherited ''constructor''" "inherited ''__proto__''" "inherited ''hasOwnProperty''"
  "\<not> inherited ''gone''" "\<not> inherited ''s1''" "\<not> inherited ''n5''" "\<not> inherited ''n6''"
  "\<not> inherited ''undefined''"
  by (simp_all add: inherited_def object_prototype_names_def)

text \<open>
  Claim C7. The claim holds of the resolver as it is meant: the comment on the owner test
  reads \<^verbatim>\<open>If owner is no longer present, give up\<close>. The source tests the owner with
  \<^verbatim>\<open>presence.state[pendingData.owner]\<close> on a plain object, which is not empty-handed for the
  names that every object inherits. For the pending record \<^verbatim>\<open>p3\<close>, whose owner is
  \<^verbatim>\<open>constructor\<close>, no session of that name has a presence entry, and the resolver returns
  the pair of template and creator where the claim has absence. For the owner \<^verbatim>\<open>gone\<close>
  of the record \<^verbatim>\<open>p2\<close>, equally without presence entry, it returns absence.
\<close>

theorem resolver_takes_inherited_name_for_present_owner:
  "getPendingDataForNetworkId ex_env_inherited_owner ''p3'' =
       Some \<lparr>template = ''#interactable-media'', creator = ''s1'', owner = Some ''constructor''\<rparr>
   \<and> presence_state ex_env_inherited_owner ''constructor'' = None
   \<and> getPendingOrExistingEntityMetadata ex_env_inherited_owner ''p3'' =
       Some \<lparr>template = ''#interactable-media'', creator = ''s1''\<rparr>
   \<and> getPendingDataForNetworkId ex_env ''p2'' =
       Some \<lparr>template = ''#interactable-media'', creator = ''s1'', owner = Some ''gone''\<rparr>
   \<and> presence_state ex_env ''gone'' = None
   \<and> getPendingOrExistingEntityMetadata ex_env ''p2'' = None"
  by (simp add: getPendingOrExistingEntityMetadata_def owner_not_present_def get_property_def
        ex_env_inherited_owner_def ex_presence_def)

section \<open>The branches of the message gate\<close>

lemma gate_first_sync:
  "first_sync_creation msg \<Longrightarrow> authorizeOrSanitizeMessage env st msg = (st, Inr (Msg msg))"
  by (simp add: authorizeOrSanitizeMessage_def first_sync_creation_def)

lemma gate_no_presence:
  "\<not> first_sync_creation msg \<Longrightarrow> presence_state env (from_session_id msg) = None \<Longrightarrow>
   authorizeOrSanitizeMessage env st msg = (st, Inr EmptyObject)"
  by (simp add: authorizeOrSanitizeMessage_def first_sync_creation_def)

lemma gate_um:
  "dataType msg = ''um'' \<Longrightarrow> presence_state env (from_session_id msg) = Some p \<Longrightarrow>
   authorizeOrSanitizeMessage env st msg =
     (case um_loop env msg (permissions (metas_0 p)) st (data_d msg) of
        (st', Inl e) \<Rightarrow> (st', Inl e)
      | (st', Inr (slots, sanitizedAny, stashedAny)) \<Rightarrow>
          (st', Inr (Msg (msg\<lparr>data_d :=
             (if sanitizedAny \<or> stashedAny then filter (\<lambda>x. x \<noteq> None) slots else slots)\<rparr>))))"
  by (simp add: authorizeOrSanitizeMessage_def)

lemma gate_u_stash:
  "dataType msg = ''u'' \<Longrightarrow> truthy (persistent (data msg)) \<Longrightarrow>
   getEntity env (networkId (data msg)) = None \<Longrightarrow>
   presence_state env (from_session_id msg) = Some p \<Longrightarrow>
   networkId (data msg) \<noteq> ''__proto__'' \<Longrightarrow>
   authorizeOrSanitizeMessage env st msg =
     (st\<lparr>persistentSyncs := (persistentSyncs st)(networkId (data msg) \<mapsto> msg)\<rparr>, Inr EmptyObject)"
  by (simp add: authorizeOrSanitizeMessage_def set_property_def)

lemma gate_u_stash_cases:
  "dataType msg = ''u'' \<Longrightarrow> truthy (persistent (data msg)) \<Longrightarrow>
   getEntity env (networkId (data msg)) = None \<Longrightarrow>
   presence_state env (from_session_id msg) = Some p \<Longrightarrow>
   authorizeOrSanitizeMessage env st msg = (st, Inl ProtoSetter) \<or>
   authorizeOrSanitizeMessage env st msg =
     (st\<lparr>persistentSyncs := (persistentSyncs st)(networkId (data msg) \<mapsto> msg)\<rparr>, Inr EmptyObject)"
  by (simp add: authorizeOrSanitizeMessage_def set_property_def)

lemma gate_u_stash_proto:
  "dataType msg = ''u'' \<Longrightarrow> truthy (persistent (data msg)) \<Longrightarrow>
   getEntity env (networkId (data msg)) = None \<Longrightarrow>
   presence_state env (from_session_id msg) = Some p \<Longrightarrow>
   networkId (data msg) = ''__proto__'' \<Longrightarrow> persistentSyncs st ''__proto__'' = None \<Longrightarrow>
   authorizeOrSanitizeMessage env st msg = (st, Inl ProtoSetter)"
  by (simp add: authorizeOrSanitizeMessage_def set_property_def)

lemma gate_u_authorize:
  "dataType msg = ''u'' \<Longrightarrow> \<not> first_sync_creation msg \<Longrightarrow>
   \<not> (truthy (persistent (data msg)) \<and> getEntity env (networkId (data msg)) = None) \<Longrightarrow>
   presence_state env (from_session_id msg) = Some p \<Longrightarrow>
   authorizeOrSanitizeMessage env st msg =
     (case authorizeOrSanitizeMessageData env st (data msg) (from_session_id msg) (permissions (metas_0 p)) of
        (st', Inl e) \<Rightarrow> (st', Inl e)
      | (st', Inr (authorizedOrSanitized, d')) \<Rightarrow>
          if authorizedOrSanitized then (st', Inr (Msg (msg\<lparr>data := d'\<rparr>)))
          else (st', Inr EmptyObject))"
  unfolding authorizeOrSanitizeMessage_def first_sync_creation_def
  by (cases "truthy (persistent (data msg))"; cases "truthy (isFirstSync (data msg))"; auto)

lemma gate_r:
  "dataType msg = ''r'' \<Longrightarrow> presence_state env (from_session_id msg) = Some p \<Longrightarrow>
   authorizeOrSanitizeMessage env st msg =
     (case getPendingOrExistingEntityMetadata env (networkId (data msg)) of
        None \<Rightarrow> (st, Inr EmptyObject)
      | Some entityMetadata \<Rightarrow>
          if authorizeEntityManipulation entityMetadata (from_session_id msg) (permissions (metas_0 p))
          then (st, Inr (Msg msg))
          else (st, Inr EmptyObject))"
  by (simp add: authorizeOrSanitizeMessage_def)

lemma gate_other:
  "dataType msg \<noteq> ''u'' \<Longrightarrow> dataType msg \<noteq> ''um'' \<Longrightarrow> dataType msg \<noteq> ''r'' \<Longrightarrow>
   presence_state env (from_session_id msg) = Some p \<Longrightarrow>
   authorizeOrSanitizeMessage env st msg = (st, Inr (Msg msg))"
  by (simp add: authorizeOrSanitizeMessage_def)

section \<open>Senders without a presence entry\<close>

text \<open>
  Claim C1, as stated: for every message whose sender has no presence entry the message
  gate returns the empty message, also when \<^verbatim>\<open>isFirstSync\<close> is set. The source tests first-sync
  creation before it reads the presence directory, so the statement fails at a \<^verbatim>\<open>"u"\<close>
  message with \<^verbatim>\<open>isFirstSync\<close> set and \<^verbatim>\<open>persistent\<close> not set: the sender \<^verbatim>\<open>s3\<close> has no presence
  entry and the message is returned as it came.
\<close>

theorem first_sync_bypasses_presence_check:
  "presence_state ex_env (from_session_id ex_first_sync) = None
   \<and> authorizeOrSanitizeMessage ex_env ex_state0 ex_first_sync = (ex_state0, Inr (Msg ex_first_sync))
   \<and> snd (authorizeOrSanitizeMessage ex_env ex_state0 ex_first_sync) \<noteq> Inr EmptyObject"
  by (simp add: authorizeOrSanitizeMessage_def ex_first_sync_def truthy_def ex_presence_def)

text \<open>
  Claim C1, amended. For every message whose sender has no presence entry the message
  gate returns the empty message and leaves the state as it is, for every \<^verbatim>\<open>dataType\<close>, unless
  the message is a \<^verbatim>\<open>"u"\<close> message with \<^verbatim>\<open>isFirstSync\<close> set and \<^verbatim>\<open>persistent\<close> not set; that
  message is returned unmodified.
\<close>

theorem no_presence_returns_empty_unless_first_sync:
  assumes "presence_state env (from_session_id msg) = None"
  shows "(\<not> first_sync_creation msg \<longrightarrow> authorizeOrSanitizeMessage env st msg = (st, Inr EmptyObject))
       \<and> (first_sync_creation msg \<longrightarrow> authorizeOrSanitizeMessage env st msg = (st, Inr (Msg msg)))"
  using assms by (simp add: gate_first_sync gate_no_presence)

theorem no_presence_returns_empty_unless_first_sync_witness:
  "presence_state ex_env (from_session_id ex_remove_absent) = None
   \<and> \<not> first_sync_creation ex_remove_absent
   \<and> authorizeOrSanitizeMessage ex_env ex_state0 ex_remove_absent = (ex_state0, Inr EmptyObject)
   \<and> presence_state ex_env (from_session_id ex_first_sync) = None
   \<and> first_sync_creation ex_first_sync
   \<and> authorizeOrSanitizeMessage ex_env ex_state0 ex_first_sync = (ex_state0, Inr (Msg ex_first_sync))"
proof -
  have a: "presence_state ex_env (from_session_id ex_remove_absent) = None"
    and b: "\<not> first_sync_creation ex_remove_absent"
    and c: "presence_state ex_env (from_session_id ex_first_sync) = None"
    and d: "first_sync_creation ex_first_sync"
    by (simp_all add: ex_remove_absent_def ex_first_sync_def first_sync_creation_def truthy_def ex_presence_def)
  show ?thesis
    using no_presence_returns_empty_unless_first_sync [OF a, of ex_state0]
      no_presence_returns_empty_unless_first_sync [OF c, of ex_state0] a b c d
    by simp
qed

section \<open>Bulk updates\<close>

lemma sanitizeMessageData_state:
  "sanitizeMessageData sd st tmpl d = (st', r) \<Longrightarrow>
   st' = st\<lparr>nonAuthorizedSchemas := Some (registry sd st)\<rparr>"
  by (auto simp add: sanitizeMessageData_def Let_def split: option.splits if_splits)

lemma authorizeOrSanitizeMessageData_state:
  assumes "authorizeOrSanitizeMessageData env st d sender perms = (st', r)"
  shows "persistentSyncs st' = persistentSyncs st"
    and "registry (schemaDict env) st' = registry (schemaDict env) st"
proof -
  have "st' = st \<or> st' = st\<lparr>nonAuthorizedSchemas := Some (registry (schemaDict env) st)\<rparr>"
    using assms
    by (auto simp add: authorizeOrSanitizeMessageData_def
        split: option.splits if_splits prod.splits sum.splits dest: sanitizeMessageData_state)
  then show "persistentSyncs st' = persistentSyncs st"
    and "registry (schemaDict env) st' = registry (schemaDict env) st"
    by auto
qed


lemma stashPersistentSync_other:
  "stashPersistentSync st msg entityData = Inr st1 \<Longrightarrow> k \<noteq> networkId entityData \<Longrightarrow>
   persistentSyncs st1 k = persistentSyncs st k"
  by (auto simp add: stashPersistentSync_def split: js_property.splits if_splits)










lemma ex_authorize:
  "\<not> authorizeEntityManipulation \<lparr>template = ''#interactable-media'', creator = ''s9''\<rparr> ''s1'' Map.empty"
  "authorizeEntityManipulation \<lparr>template = ''#interactable-media'', creator = ''s1''\<rparr> ''s1'' Map.empty"
  by (simp_all add: authorizeEntityManipulation_def endsWith_def can_def)




lemma ex_fields:
  "networkId ex_payload = ''n1''" "persistent ex_payload = None"
  "networkId ex_stashable = ''n5''" "persistent ex_stashable = Some True"
  "networkId ex_unknown = ''n7''" "persistent ex_unknown = None"
  "networkId ex_own = ''p1''" "persistent ex_own = None"
  by (simp_all add: ex_stashable_def ex_payload_def ex_unknown_def ex_own_def)





section \<open>The stash invariant\<close>

lemma stash_wf_cache [simp]: "stash_wf (st\<lparr>nonAuthorizedSchemas := c\<rparr>) = stash_wf st"
  by (simp add: stash_wf_def)

lemma stash_wf_stashPersistentSync:
  "stashPersistentSync st msg entityData = Inr st1 \<Longrightarrow> stash_wf st \<Longrightarrow> stash_wf st1"
  by (auto simp add: stash_wf_def stashPersistentSync_def get_property_Own_iff merge_entity_data_def
      split: js_property.splits if_splits)

lemma stash_wf_authorizeOrSanitizeMessageData:
  assumes "authorizeOrSanitizeMessageData env st d sender perms = (st', r)" and "stash_wf st"
  shows "stash_wf st'"
  using assms authorizeOrSanitizeMessageData_state(1) [OF assms(1)]
  by (simp add: stash_wf_def)

lemma stash_wf_um_loop:
  "um_loop env msg perms st es = (st', r) \<Longrightarrow> stash_wf st \<Longrightarrow> stash_wf st'"
proof (induction es arbitrary: st st' r)
  case Nil
  then show ?case by simp
next
  case (Cons e es)
  show ?case
  proof (cases e)
    case None
    with Cons.prems show ?thesis by simp
  next
    case (Some x)
    show ?thesis
    proof (cases "truthy (persistent x) \<and> getEntity env (networkId x) = None")
      case True
      show ?thesis
      proof (cases "stashPersistentSync st msg x")
        case (Inl err)
        with Cons.prems(1) Some True have "st' = st" by simp
        with Cons.prems(2) show ?thesis by simp
      next
        case (Inr st1)
        obtain st2 r2 where rest: "um_loop env msg perms st1 es = (st2, r2)"
          by (cases "um_loop env msg perms st1 es")
        with Cons.prems(1) Some True Inr have "st' = st2"
          by (auto split: sum.splits prod.splits)
        with Cons.IH [OF rest stash_wf_stashPersistentSync [OF Inr Cons.prems(2)]] show ?thesis by simp
      qed
    next
      case False
      obtain st1 r1 where step:
        "authorizeOrSanitizeMessageData env st x (from_session_id msg) perms = (st1, r1)"
        by (cases "authorizeOrSanitizeMessageData env st x (from_session_id msg) perms")
      have wf1: "stash_wf st1"
        using step Cons.prems(2) by (rule stash_wf_authorizeOrSanitizeMessageData)
      show ?thesis
      proof (cases r1)
        case (Inl err)
        with Cons.prems(1) Some False step have "st' = st1" by simp
        with wf1 show ?thesis by simp
      next
        case (Inr res)
        obtain st2 r2 where rest: "um_loop env msg perms st1 es = (st2, r2)"
          by (cases "um_loop env msg perms st1 es")
        with Cons.prems(1) Some False step Inr have "st' = st2"
          by (auto split: sum.splits prod.splits if_splits)
        with Cons.IH [OF rest wf1] show ?thesis by simp
      qed
    qed
  qed
qed

lemma stash_wf_gate:
  assumes "authorizeOrSanitizeMessage env st msg = (st', r)" and "stash_wf st"
  shows "stash_wf st'"
proof (cases "first_sync_creation msg")
  case True
  with assms show ?thesis by (simp add: gate_first_sync)
next
  case nf: False
  show ?thesis
  proof (cases "presence_state env (from_session_id msg)")
    case None
    with assms nf show ?thesis by (simp add: gate_no_presence)
  next
    case (Some p)
    consider (um) "dataType msg = ''um''"
      | (stash) "dataType msg = ''u''" "truthy (persistent (data msg)) \<and> getEntity env (networkId (data msg)) = None"
      | (u) "dataType msg = ''u''" "\<not> (truthy (persistent (data msg)) \<and> getEntity env (networkId (data msg)) = None)"
      | (r) "dataType msg = ''r''"
      | (other) "dataType msg \<noteq> ''u''" "dataType msg \<noteq> ''um''" "dataType msg \<noteq> ''r''"
      by blast
    then show ?thesis
    proof cases
      case um
      obtain st2 r2 where loop: "um_loop env msg (permissions (metas_0 p)) st (data_d msg) = (st2, r2)"
        by (cases "um_loop env msg (permissions (metas_0 p)) st (data_d msg)")
      with assms(1) um Some have "st' = st2"
        by (auto simp add: gate_um split: sum.splits prod.splits)
      with stash_wf_um_loop [OF loop assms(2)] show ?thesis by simp
    next
      case stash
      with assms(1) Some gate_u_stash_cases [of msg env p st]
      have "st' = st \<or> st' = st\<lparr>persistentSyncs := (persistentSyncs st)(networkId (data msg) \<mapsto> msg)\<rparr>"
        by auto
      with assms(2) stash(1) show ?thesis by (auto simp add: stash_wf_def split: if_splits)
    next
      case u
      obtain st1 r1 where step:
        "authorizeOrSanitizeMessageData env st (data msg) (from_session_id msg) (permissions (metas_0 p)) = (st1, r1)"
        by (cases "authorizeOrSanitizeMessageData env st (data msg) (from_session_id msg) (permissions (metas_0 p))")
      with assms(1) u nf Some have "st' = st1"
        by (auto simp add: gate_u_authorize split: sum.splits prod.splits if_splits)
      with stash_wf_authorizeOrSanitizeMessageData [OF step assms(2)] show ?thesis by simp
    next
      case r
      with assms Some have "st' = st"
        by (auto simp add: gate_r split: option.splits if_splits)
      with assms(2) show ?thesis by simp
    next
      case other
      with assms Some show ?thesis by (simp add: gate_other)
    qed
  qed
qed

lemma stash_wf_empty: "stash_wf \<lparr>persistentSyncs = Map.empty, nonAuthorizedSchemas = None\<rparr>"
  by (simp add: stash_wf_def)

lemma stash_wf_applyPersistentSync:
  assumes "applyPersistentSync env st nid = (st', r)" and "stash_wf st"
  shows "stash_wf st'"
proof (cases "get_property (persistentSyncs st) nid")
  case Absent
  with assms show ?thesis by (simp add: applyPersistentSync_def)
next
  case (Own stashed)
  obtain st1 r1 where g: "authorizeOrSanitizeMessage env st stashed = (st1, r1)"
    by (cases "authorizeOrSanitizeMessage env st stashed")
  from stash_wf_gate [OF g assms(2)] have "stash_wf st1" .
  with assms(1) Own g show ?thesis
    by (cases r1) (auto simp add: applyPersistentSync_def stash_wf_def split: if_splits)
next
  case FromPrototype
  with assms show ?thesis by (simp add: applyPersistentSync_def)
qed

section \<open>Replay of a stashed update: what it touches\<close>

text \<open>A single-update message changes the stash at its own networkId only.\<close>

lemma gate_u_frame:
  assumes "authorizeOrSanitizeMessage env st msg = (st', r)" and "dataType msg = ''u''"
    and "k \<noteq> networkId (data msg)"
  shows "persistentSyncs st' k = persistentSyncs st k"
proof (cases "first_sync_creation msg")
  case True
  with assms show ?thesis by (simp add: gate_first_sync)
next
  case nf: False
  show ?thesis
  proof (cases "presence_state env (from_session_id msg)")
    case None
    with assms nf show ?thesis by (simp add: gate_no_presence)
  next
    case (Some p)
    show ?thesis
    proof (cases "truthy (persistent (data msg)) \<and> getEntity env (networkId (data msg)) = None")
      case True
      with assms Some gate_u_stash_cases [of msg env p st] show ?thesis by auto
    next
      case False
      obtain st1 r1 where step:
        "authorizeOrSanitizeMessageData env st (data msg) (from_session_id msg) (permissions (metas_0 p)) = (st1, r1)"
        by (cases "authorizeOrSanitizeMessageData env st (data msg) (from_session_id msg) (permissions (metas_0 p))")
      with assms(1,2) False nf Some have "st' = st1"
        by (auto simp add: gate_u_authorize split: sum.splits prod.splits if_splits)
      with authorizeOrSanitizeMessageData_state(1) [OF step] show ?thesis by simp
    qed
  qed
qed

text \<open>When a single-update message makes the message gate raise, the stash is as before.\<close>

lemma gate_u_raise_stash:
  assumes "authorizeOrSanitizeMessage env st msg = (st', Inl e)" and "dataType msg = ''u''"
  shows "persistentSyncs st' = persistentSyncs st"
proof (cases "first_sync_creation msg")
  case True
  with assms show ?thesis by (simp add: gate_first_sync)
next
  case nf: False
  show ?thesis
  proof (cases "presence_state env (from_session_id msg)")
    case None
    with assms nf show ?thesis by (simp add: gate_no_presence)
  next
    case (Some p)
    show ?thesis
    proof (cases "truthy (persistent (data msg)) \<and> getEntity env (networkId (data msg)) = None")
      case True
      with assms Some gate_u_stash_cases [of msg env p st] show ?thesis by auto
    next
      case False
      obtain st1 r1 where step:
        "authorizeOrSanitizeMessageData env st (data msg) (from_session_id msg) (permissions (metas_0 p)) = (st1, r1)"
        by (cases "authorizeOrSanitizeMessageData env st (data msg) (from_session_id msg) (permissions (metas_0 p))")
      with assms(1,2) False nf Some have "st' = st1"
        by (auto simp add: gate_u_authorize split: sum.splits prod.splits if_splits)
      with authorizeOrSanitizeMessageData_state(1) [OF step] show ?thesis by simp
    qed
  qed
qed

text \<open>
  What \<^verbatim>\<open>applyPersistentSync\<close> touches. For a networkId under which the stash reads
  nothing, it does nothing: no call to \<^verbatim>\<open>onData\<close>, the state unchanged. For a networkId with
  an entry of its own, in a stash built by this module, the entries of all other
  networkIds are unchanged; when the call returns it has called \<^verbatim>\<open>onData\<close> once and that
  entry is removed; when the message gate raises during the replay the \<^verbatim>\<open>delete\<close> is not
  reached and the whole stash is unchanged. For an inherited name without an entry of its
  own, \<^verbatim>\<open>onData\<close> is called once and the state is unchanged.
\<close>

lemma applyPersistentSync_frame:
  "(get_property (persistentSyncs st) nid = Absent \<longrightarrow> applyPersistentSync env st nid = (st, Inr []))
   \<and> (stash_wf st \<and> persistentSyncs st nid \<noteq> None \<longrightarrow>
        (\<forall>k. k \<noteq> nid \<longrightarrow>
           persistentSyncs (fst (applyPersistentSync env st nid)) k = persistentSyncs st k)
      \<and> (\<forall>calls. snd (applyPersistentSync env st nid) = Inr calls \<longrightarrow>
           persistentSyncs (fst (applyPersistentSync env st nid)) nid = None \<and> length calls = 1)
      \<and> (\<forall>e. snd (applyPersistentSync env st nid) = Inl e \<longrightarrow>
           persistentSyncs (fst (applyPersistentSync env st nid)) = persistentSyncs st))
   \<and> (get_property (persistentSyncs st) nid = FromPrototype \<longrightarrow>
        (\<exists>r. applyPersistentSync env st nid = (st, Inr [(r, PHOENIX_RELIABLE_NAF)])))"
proof (intro conjI impI)
  assume "get_property (persistentSyncs st) nid = Absent"
  then show "applyPersistentSync env st nid = (st, Inr [])"
    by (simp add: applyPersistentSync_def)
next
  assume "get_property (persistentSyncs st) nid = FromPrototype"
  then show "\<exists>r. applyPersistentSync env st nid = (st, Inr [(r, PHOENIX_RELIABLE_NAF)])"
    by (simp add: applyPersistentSync_def)
next
  assume a: "stash_wf st \<and> persistentSyncs st nid \<noteq> None"
  then obtain stashed where s: "persistentSyncs st nid = Some stashed" by auto
  then have own: "get_property (persistentSyncs st) nid = Own stashed"
    by (simp add: get_property_Own_iff)
  from s a have u: "dataType stashed = ''u''" and n: "networkId (data stashed) = nid"
    by (auto simp add: stash_wf_def)
  obtain st1 r1 where g: "authorizeOrSanitizeMessage env st stashed = (st1, r1)"
    by (cases "authorizeOrSanitizeMessage env st stashed")
  show "\<forall>k. k \<noteq> nid \<longrightarrow>
           persistentSyncs (fst (applyPersistentSync env st nid)) k = persistentSyncs st k"
    using gate_u_frame [OF g u] n own g
    by (cases r1) (auto simp add: applyPersistentSync_def)
  show "\<forall>calls. snd (applyPersistentSync env st nid) = Inr calls \<longrightarrow>
           persistentSyncs (fst (applyPersistentSync env st nid)) nid = None \<and> length calls = 1"
    using own g by (cases r1) (auto simp add: applyPersistentSync_def)
  show "\<forall>e. snd (applyPersistentSync env st nid) = Inl e \<longrightarrow>
           persistentSyncs (fst (applyPersistentSync env st nid)) = persistentSyncs st"
    using own g gate_u_raise_stash [OF _ u, of env st st1]
    by (cases r1) (auto simp add: applyPersistentSync_def)
qed

text \<open>
  Claim C10. The claim holds of \<^verbatim>\<open>applyPersistentSync\<close> as it is meant: its guard
  \<^verbatim>\<open>if (!persistentSyncs[networkId]) return\<close> is there to do nothing when nothing is stashed.
  The stash is a plain object, and the guard reads it under a networkId chosen by the peer
  that created the entity: for the name \<^verbatim>\<open>constructor\<close> the read yields a member of
  \<^verbatim>\<open>Object.prototype\<close>. With nothing stashed at all, the guard is passed, the message gate
  is run on that value and \<^verbatim>\<open>onData\<close> is called with the empty message, where the claim has
  no call to \<^verbatim>\<open>onData\<close>. For the networkId \<^verbatim>\<open>n1\<close>, equally without entry, nothing is called.
\<close>

theorem applyPersistentSync_calls_onData_for_inherited_name:
  "persistentSyncs ex_state0 ''constructor'' = None
   \<and> applyPersistentSync ex_env ex_state0 ''constructor'' =
        (ex_state0, Inr [(EmptyObject, PHOENIX_RELIABLE_NAF)])
   \<and> persistentSyncs ex_state0 ''n1'' = None
   \<and> applyPersistentSync ex_env ex_state0 ''n1'' = (ex_state0, Inr [])"
  by (simp add: applyPersistentSync_def get_property_def ex_state0_def ex_presence_def
        inherited_def object_prototype_names_def)

text \<open>A single update for a materialized entity from a present, authorized sender passes unchanged.\<close>

lemma gate_u_authorized:
  assumes "dataType msg = ''u''" and "\<not> first_sync_creation msg"
    and "getEntity env (networkId (data msg)) \<noteq> None"
    and "presence_state env (from_session_id msg) = Some p"
    and "getPendingOrExistingEntityMetadata env (networkId (data msg)) = Some entityMetadata"
    and "authorizeEntityManipulation entityMetadata (from_session_id msg) (permissions (metas_0 p))"
  shows "authorizeOrSanitizeMessage env st msg = (st, Inr (Msg msg))"
proof -
  have "authorizeOrSanitizeMessageData env st (data msg) (from_session_id msg) (permissions (metas_0 p)) =
          (st, Inr (True, data msg))"
    using assms(5,6) by (simp add: authorizeOrSanitizeMessageData_def)
  with assms(1-4) show ?thesis by (simp add: gate_u_authorize)
qed

lemma ex_env_materialized_simps:
  "getEntity ex_env_materialized = [''n5'' \<mapsto> (''#interactable-media'', ''s1'')]"
  "presence_state ex_env_materialized = ex_presence"
  "getPendingOrExistingEntityMetadata ex_env_materialized ''n5'' =
     Some \<lparr>template = ''#interactable-media'', creator = ''s1''\<rparr>"
  by (simp_all add: ex_env_materialized_def getPendingOrExistingEntityMetadata_def)

lemma ex_persistent_u_fields:
  "dataType ex_persistent_u = ''u''" "networkId (data ex_persistent_u) = ''n5''"
  "truthy (persistent (data ex_persistent_u))" "from_session_id ex_persistent_u = ''s1''"
  by (simp_all add: ex_persistent_u_def ex_stashable_def truthy_def)

lemma ex_replay_gate:
  "authorizeOrSanitizeMessage ex_env_materialized st ex_persistent_u = (st, Inr (Msg ex_persistent_u))"
  by (rule gate_u_authorized [where p = "\<lparr>metas_0 = \<lparr>permissions = Map.empty\<rparr>, metas_rest = []\<rparr>"
        and entityMetadata = "\<lparr>template = ''#interactable-media'', creator = ''s1''\<rparr>"])
     (simp_all add: ex_persistent_u_fields first_sync_creation_def ex_env_materialized_simps
        ex_presence_def ex_authorize)

lemma ex_state_two_wf: "stash_wf ex_state_two"
  by (simp add: stash_wf_def ex_state_two_def ex_persistent_n6_def ex_persistent_u_def ex_stashable_def)

lemma ex_replay_two:
  "applyPersistentSync ex_env_materialized ex_state_two ''n5'' =
     (ex_state_two\<lparr>persistentSyncs := (persistentSyncs ex_state_two)(''n5'' := None)\<rparr>,
      Inr [(Msg ex_persistent_u, PHOENIX_RELIABLE_NAF)])"
  by (simp add: applyPersistentSync_def get_property_def ex_replay_gate ex_state_two_def)

section \<open>Stash and replay of a persistent single update\<close>





text \<open>
  The networkIds that the amended claim leaves out. A persistent update for the networkId
  \<^verbatim>\<open>constructor\<close> is stashed and replayed like any other, and the entry is removed; the
  second \<^verbatim>\<open>applyPersistentSync\<close> then reads the inherited member under that name and calls
  \<^verbatim>\<open>onData\<close> again, with the empty message.
\<close>

lemma replay_for_inherited_name_delivers_again:
  "authorizeOrSanitizeMessage ex_env ex_state0 ex_persistent_constructor =
     (ex_state0\<lparr>persistentSyncs := [''constructor'' \<mapsto> ex_persistent_constructor]\<rparr>, Inr EmptyObject)
   \<and> applyPersistentSync ex_env_constructor_materialized
        (ex_state0\<lparr>persistentSyncs := [''constructor'' \<mapsto> ex_persistent_constructor]\<rparr>) ''constructor'' =
     (ex_state0, Inr [(Msg ex_persistent_constructor, PHOENIX_RELIABLE_NAF)])
   \<and> applyPersistentSync ex_env_constructor_materialized ex_state0 ''constructor'' =
     (ex_state0, Inr [(EmptyObject, PHOENIX_RELIABLE_NAF)])"
proof -
  have f: "dataType ex_persistent_constructor = ''u''" "from_session_id ex_persistent_constructor = ''s1''"
    "networkId (data ex_persistent_constructor) = ''constructor''"
    "truthy (persistent (data ex_persistent_constructor))"
    "isFirstSync (data ex_persistent_constructor) = None"
    by (simp_all add: ex_persistent_constructor_def ex_stash_constructor_def truthy_def)
  have p: "presence_state ex_env (from_session_id ex_persistent_constructor) =
             Some \<lparr>metas_0 = \<lparr>permissions = Map.empty\<rparr>, metas_rest = []\<rparr>"
    by (simp add: f ex_presence_def)
  have e: "getEntity ex_env_constructor_materialized = [''constructor'' \<mapsto> (''#interactable-media'', ''s1'')]"
    "presence_state ex_env_constructor_materialized = ex_presence"
    "getPendingOrExistingEntityMetadata ex_env_constructor_materialized ''constructor'' =
       Some \<lparr>template = ''#interactable-media'', creator = ''s1''\<rparr>"
    by (simp_all add: ex_env_constructor_materialized_def getPendingOrExistingEntityMetadata_def)
  have stash: "authorizeOrSanitizeMessage ex_env ex_state0 ex_persistent_constructor =
     (ex_state0\<lparr>persistentSyncs := [''constructor'' \<mapsto> ex_persistent_constructor]\<rparr>, Inr EmptyObject)"
    using gate_u_stash [OF f(1) f(4) _ p, of ex_state0]
    by (simp add: f ex_state0_def)
  have replay_gate: "authorizeOrSanitizeMessage ex_env_constructor_materialized st ex_persistent_constructor =
      (st, Inr (Msg ex_persistent_constructor))" for st
    by (rule gate_u_authorized [where p = "\<lparr>metas_0 = \<lparr>permissions = Map.empty\<rparr>, metas_rest = []\<rparr>"
          and entityMetadata = "\<lparr>template = ''#interactable-media'', creator = ''s1''\<rparr>"])
       (simp_all add: f first_sync_creation_def truthy_def e ex_presence_def ex_authorize)
  have first: "applyPersistentSync ex_env_constructor_materialized
        (ex_state0\<lparr>persistentSyncs := [''constructor'' \<mapsto> ex_persistent_constructor]\<rparr>) ''constructor'' =
     (ex_state0, Inr [(Msg ex_persistent_constructor, PHOENIX_RELIABLE_NAF)])"
    by (simp add: applyPersistentSync_def get_property_def replay_gate ex_state0_def)
  have again: "applyPersistentSync ex_env_constructor_materialized ex_state0 ''constructor'' =
     (ex_state0, Inr [(EmptyObject, PHOENIX_RELIABLE_NAF)])"
    by (simp add: applyPersistentSync_def get_property_def ex_state0_def e ex_presence_def)
  from stash first again show ?thesis by (intro conjI)
qed

section \<open>Merging stashed updates\<close>

text \<open>
  On the bulk-update path two updates for one networkId are merged: when stashing \<open>a\<close>
  and then \<open>b\<close> both return, they leave the stash that a single stash of their merge
  leaves, whatever was stashed before.
\<close>

lemma merge_entity_data_assoc:
  "merge_entity_data (merge_entity_data c a) b = merge_entity_data c (merge_entity_data a b)"
  by (simp add: merge_entity_data_def object_assign_def split: option.splits)

lemma assigns_proto_assoc:
  "\<not> assigns_proto c a \<Longrightarrow> \<not> assigns_proto (object_assign c a) b \<Longrightarrow>
   \<not> assigns_proto c (object_assign a b)"
  by (auto simp add: assigns_proto_def object_assign_def map_add_def split: option.splits)

lemma stashPersistentSync_merge_law:
  assumes "networkId a = networkId b"
    and "stashPersistentSync st msgA a = Inr st1"
    and "stashPersistentSync st1 msgB b = Inr st2"
  shows "stashPersistentSync st msgA (merge_entity_data a b) = Inr st2"
proof (cases "get_property (persistentSyncs st) (networkId a)")
  case Absent
  with assms show ?thesis
    by (auto simp add: stashPersistentSync_def get_property_def merge_entity_data_def
        split: if_splits)
next
  case (Own current)
  from Own assms(2) have
    st1: "st1 = st\<lparr>persistentSyncs := (persistentSyncs st)(networkId a \<mapsto>
                 current\<lparr>data := merge_entity_data (data current) a\<rparr>)\<rparr>"
    and na: "\<not> assigns_proto (others (data current)) (others a)"
      "\<not> assigns_proto (components (data current)) (components a)"
    by (auto simp add: stashPersistentSync_def split: if_splits)
  from assms(1,3) have
    st2: "st2 = st\<lparr>persistentSyncs := (persistentSyncs st)(networkId a \<mapsto>
                 current\<lparr>data := merge_entity_data (merge_entity_data (data current) a) b\<rparr>)\<rparr>"
    and nb: "\<not> assigns_proto (object_assign (others (data current)) (others a)) (others b)"
      "\<not> assigns_proto (object_assign (components (data current)) (components a)) (components b)"
    unfolding st1
    by (auto simp add: stashPersistentSync_def get_property_def merge_entity_data_def split: if_splits)
  have "\<not> assigns_proto (others (data current)) (others (merge_entity_data a b))"
    "\<not> assigns_proto (components (data current)) (components (merge_entity_data a b))"
    using assigns_proto_assoc [OF na(1) nb(1)] assigns_proto_assoc [OF na(2) nb(2)]
    by (simp_all add: merge_entity_data_def)
  with Own assms(1) show ?thesis
    unfolding st2
    by (simp add: stashPersistentSync_def merge_entity_data_assoc)
       (simp add: merge_entity_data_def)
next
  case FromPrototype
  with assms(2) show ?thesis by (simp add: stashPersistentSync_def)
qed

lemma ex_later_fields:
  "networkId ex_later = ''n5''" "persistent ex_later = Some True"
  by (simp_all add: ex_later_def)

lemma ex_um_a_gate:
  "authorizeOrSanitizeMessage ex_env ex_state0 ex_um_a = (ex_state_stashed, Inr (Msg (ex_um_a\<lparr>data_d := []\<rparr>)))"
proof -
  have f: "dataType ex_um_a = ''um''" "from_session_id ex_um_a = ''s1''" "data_d ex_um_a = [Some ex_stashable]"
    "clientId ex_um_a = ''c1''"
    by (simp_all add: ex_um_a_def)
  have p: "presence_state ex_env (from_session_id ex_um_a) =
             Some \<lparr>metas_0 = \<lparr>permissions = Map.empty\<rparr>, metas_rest = []\<rparr>"
    by (simp add: f ex_presence_def)
  have s: "stashPersistentSync ex_state0 ex_um_a ex_stashable = Inr ex_state_stashed"
    by (simp add: stashPersistentSync_def get_property_def ex_state0_def ex_state_stashed_def
        ex_persistent_u_def f ex_fields)
  show ?thesis
    by (simp add: gate_um [OF f(1) p] f ex_fields truthy_def s)
qed

lemma ex_u_b_gate:
  "authorizeOrSanitizeMessage ex_env ex_state_stashed ex_u_b =
     (ex_state_stashed\<lparr>persistentSyncs := [''n5'' \<mapsto> ex_u_b]\<rparr>, Inr EmptyObject)"
proof -
  have f: "dataType ex_u_b = ''u''" "from_session_id ex_u_b = ''s1''" "data ex_u_b = ex_later"
    by (simp_all add: ex_u_b_def)
  have p: "presence_state ex_env (from_session_id ex_u_b) =
             Some \<lparr>metas_0 = \<lparr>permissions = Map.empty\<rparr>, metas_rest = []\<rparr>"
    by (simp add: f ex_presence_def)
  show ?thesis
    using gate_u_stash [OF f(1) _ _ p, of ex_state_stashed]
    by (simp add: f ex_later_fields truthy_def ex_state_stashed_def)
qed

lemma ex_um_b_gate:
  "authorizeOrSanitizeMessage ex_env ex_state_stashed ex_um_b =
     (ex_state_stashed\<lparr>persistentSyncs :=
        [''n5'' \<mapsto> ex_persistent_u\<lparr>data := merge_entity_data ex_stashable ex_later\<rparr>]\<rparr>,
      Inr (Msg (ex_um_b\<lparr>data_d := []\<rparr>)))"
proof -
  have f: "dataType ex_um_b = ''um''" "from_session_id ex_um_b = ''s1''" "data_d ex_um_b = [Some ex_later]"
    by (simp_all add: ex_um_b_def)
  have p: "presence_state ex_env (from_session_id ex_um_b) =
             Some \<lparr>metas_0 = \<lparr>permissions = Map.empty\<rparr>, metas_rest = []\<rparr>"
    by (simp add: f ex_presence_def)
  have s: "stashPersistentSync ex_state_stashed ex_um_b ex_later =
      Inr (ex_state_stashed\<lparr>persistentSyncs :=
        [''n5'' \<mapsto> ex_persistent_u\<lparr>data := merge_entity_data ex_stashable ex_later\<rparr>]\<rparr>)"
    by (simp add: stashPersistentSync_def get_property_def assigns_proto_def ex_state_stashed_def
        ex_later_fields ex_persistent_u_def ex_later_def ex_stashable_def)
  show ?thesis
    by (simp add: gate_um [OF f(1) p] f ex_later_fields truthy_def s)
qed

text \<open>
  Claim C6 at a concrete input. Update A (slot \<^verbatim>\<open>0\<close> of entity \<^verbatim>\<open>n5\<close>) arrives in a \<^verbatim>\<open>"um"\<close>
  message and is stashed; update B (slot \<^verbatim>\<open>1\<close> of \<^verbatim>\<open>n5\<close>) arrives as a \<^verbatim>\<open>"u"\<close> message. The
  single-update branch assigns \<^verbatim>\<open>persistentSyncs[networkId] = message\<close>: the stash then holds
  B alone, and the replay delivers B without slot \<^verbatim>\<open>0\<close>, where the merge of A and B has
  both slots. The same B arriving in a \<^verbatim>\<open>"um"\<close> message is merged into A (last conjunct).
\<close>

theorem single_update_replaces_stashed_update:
  "authorizeOrSanitizeMessage ex_env ex_state0 ex_um_a = (ex_state_stashed, Inr (Msg (ex_um_a\<lparr>data_d := []\<rparr>)))
   \<and> persistentSyncs ex_state_stashed ''n5'' = Some ex_persistent_u
   \<and> components (data ex_persistent_u) = [''0'' \<mapsto> JNum 5]
   \<and> authorizeOrSanitizeMessage ex_env ex_state_stashed ex_u_b =
        (ex_state_stashed\<lparr>persistentSyncs := [''n5'' \<mapsto> ex_u_b]\<rparr>, Inr EmptyObject)
   \<and> components (data ex_u_b) = [''1'' \<mapsto> JNum 6]
   \<and> components (merge_entity_data ex_stashable ex_later) = [''0'' \<mapsto> JNum 5, ''1'' \<mapsto> JNum 6]
   \<and> applyPersistentSync ex_env_materialized (ex_state_stashed\<lparr>persistentSyncs := [''n5'' \<mapsto> ex_u_b]\<rparr>) ''n5'' =
        (ex_state0, Inr [(Msg ex_u_b, PHOENIX_RELIABLE_NAF)])
   \<and> authorizeOrSanitizeMessage ex_env ex_state_stashed ex_um_b =
        (ex_state_stashed\<lparr>persistentSyncs :=
           [''n5'' \<mapsto> ex_persistent_u\<lparr>data := merge_entity_data ex_stashable ex_later\<rparr>]\<rparr>,
         Inr (Msg (ex_um_b\<lparr>data_d := []\<rparr>)))"
proof -
  have replay_gate: "authorizeOrSanitizeMessage ex_env_materialized st ex_u_b = (st, Inr (Msg ex_u_b))" for st
    by (rule gate_u_authorized [where p = "\<lparr>metas_0 = \<lparr>permissions = Map.empty\<rparr>, metas_rest = []\<rparr>"
          and entityMetadata = "\<lparr>template = ''#interactable-media'', creator = ''s1''\<rparr>"])
       (simp_all add: ex_u_b_def ex_later_def first_sync_creation_def truthy_def ex_env_materialized_simps
          ex_presence_def ex_authorize)
  have replay: "applyPersistentSync ex_env_materialized
        (ex_state_stashed\<lparr>persistentSyncs := [''n5'' \<mapsto> ex_u_b]\<rparr>) ''n5'' =
        (ex_state0, Inr [(Msg ex_u_b, PHOENIX_RELIABLE_NAF)])"
    by (simp add: applyPersistentSync_def get_property_def replay_gate ex_state_stashed_def ex_state0_def)
  have comps: "components (data ex_persistent_u) = [''0'' \<mapsto> JNum 5]"
    "components (data ex_u_b) = [''1'' \<mapsto> JNum 6]"
    "components (merge_entity_data ex_stashable ex_later) = [''0'' \<mapsto> JNum 5, ''1'' \<mapsto> JNum 6]"
    by (simp_all add: ex_persistent_u_def ex_stashable_def ex_u_b_def ex_later_def merge_entity_data_def
        object_assign_def)
  have "persistentSyncs ex_state_stashed ''n5'' = Some ex_persistent_u"
    by (simp add: ex_state_stashed_def)
  with ex_um_a_gate ex_u_b_gate ex_um_b_gate replay comps show ?thesis by (intro conjI)
qed

section \<open>Exceptions on the authorization path\<close>














end
